theory Spec2Isabelle
  imports Main
begin

section \<open>Extract ISBN: the PDF page-range strategy and its collaborators\<close>

text \<open>
  The development follows \<^verbatim>\<open>src/pdf.py\<close> and \<^verbatim>\<open>src/config.py\<close>.
  External effects (the two poppler tools, the files they leave behind) are
  the fields of environment records; every \<^verbatim>\<open>raise\<close> of the source is a
  value of the type \<open>error\<close>, carried on the left of a sum.
  Python text (\<open>ustr\<close>) is a list of Unicode code points; a byte string is a \<open>string\<close>
  (a list of 8-bit characters).
\<close>

subsection \<open>Errors and strings\<close>

type_synonym ustr = "nat list"

datatype error =
    ConversionError ustr
  | DRMError
  | OSError nat
  | UnboundLocalError
  | ValueError
  | AttributeError
  | XMLSyntaxError

definition ENOENT :: nat where "ENOENT = 2"
definition EINTR :: nat where "EINTR = 4"

definition ascii :: "string \<Rightarrow> ustr" where
  "ascii s = map of_char s"

subsection \<open>Module constants of pdf.py\<close>

text \<open>
  \<^verbatim>\<open>FRONT_PAGES = 25\<close> and \<^verbatim>\<open>BACK_PAGES = 15\<close> are module attributes, read
  by name each time \<^verbatim>\<open>get_isbn\<close> runs. The record holds the module's
  attributes; \<open>pdf_module\<close> is the module as the source file defines it.
\<close>

record pdf_globals =
  FRONT_PAGES :: int
  BACK_PAGES :: int

definition pdf_module :: pdf_globals where
  "pdf_module = \<lparr> FRONT_PAGES = 25, BACK_PAGES = 15 \<rparr>"

subsection \<open>Strings of Python used by get_page_count\<close>

text \<open>\<^verbatim>\<open>bytes.decode('utf-8')\<close>, strict: None stands for UnicodeDecodeError.\<close>

definition is_cont :: "nat \<Rightarrow> bool" where
  "is_cont b = (128 \<le> b \<and> b < 192)"

fun decode_utf8 :: "nat list \<Rightarrow> ustr option" where
  "decode_utf8 [] = Some []"
| "decode_utf8 (b # bs) =
     (if b < 128 then map_option ((#) b) (decode_utf8 bs)
      else if 194 \<le> b \<and> b < 224 then
        (case bs of
           c1 # r \<Rightarrow>
             if is_cont c1
             then map_option ((#) ((b - 192) * 64 + (c1 - 128))) (decode_utf8 r)
             else None
         | _ \<Rightarrow> None)
      else if 224 \<le> b \<and> b < 240 then
        (case bs of
           c1 # c2 # r \<Rightarrow>
             (let cp = (b - 224) * 4096 + (c1 - 128) * 64 + (c2 - 128)
              in if is_cont c1 \<and> is_cont c2 \<and> 2048 \<le> cp \<and> \<not> (55296 \<le> cp \<and> cp < 57344)
                 then map_option ((#) cp) (decode_utf8 r)
                 else None)
         | _ \<Rightarrow> None)
      else if 240 \<le> b \<and> b < 245 then
        (case bs of
           c1 # c2 # c3 # r \<Rightarrow>
             (let cp = (b - 240) * 262144 + (c1 - 128) * 4096 + (c2 - 128) * 64 + (c3 - 128)
              in if is_cont c1 \<and> is_cont c2 \<and> is_cont c3 \<and> 65536 \<le> cp \<and> cp < 1114112
                 then map_option ((#) cp) (decode_utf8 r)
                 else None)
         | _ \<Rightarrow> None)
      else None)"

definition decode :: "string \<Rightarrow> ustr option" where
  "decode raw = decode_utf8 (map of_char raw)"

text \<open>The line boundaries of \<^verbatim>\<open>str.splitlines()\<close>.\<close>

definition is_linebreak :: "nat \<Rightarrow> bool" where
  "is_linebreak c = (c \<in> {10, 11, 12, 13, 28, 29, 30, 133, 8232, 8233})"

text \<open>
  \<open>splitlines_from cur cs\<close>: \<open>cur\<close> is the line read so far, reversed. A
  carriage return followed by a line feed is one boundary; what follows the
  last boundary is a line only when it is not empty.
\<close>

fun splitlines_from :: "ustr \<Rightarrow> ustr \<Rightarrow> ustr list" where
  "splitlines_from cur [] = (if cur = [] then [] else [rev cur])"
| "splitlines_from cur (c # cs) =
     (if is_linebreak c
      then rev cur # (case cs of
                        d # ds \<Rightarrow> if c = 13 \<and> d = 10 then splitlines_from [] ds
                                   else splitlines_from [] cs
                      | [] \<Rightarrow> splitlines_from [] cs)
      else splitlines_from (c # cur) cs)"

definition splitlines :: "ustr \<Rightarrow> ustr list" where
  "splitlines t = splitlines_from [] t"

text \<open>The characters \<^verbatim>\<open>str.strip()\<close> removes (those with \<^verbatim>\<open>str.isspace\<close>).\<close>

definition is_space :: "nat \<Rightarrow> bool" where
  "is_space c = (c \<in> {9, 10, 11, 12, 13, 28, 29, 30, 31, 32, 133, 160, 5760,
                       8192, 8193, 8194, 8195, 8196, 8197, 8198, 8199, 8200, 8201, 8202,
                       8232, 8233, 8239, 8287, 12288})"

definition strip :: "ustr \<Rightarrow> ustr" where
  "strip t = rev (dropWhile is_space (rev (dropWhile is_space t)))"

definition colon :: nat where "colon = 58"

text \<open>\<^verbatim>\<open>line.partition(':')[::2]\<close> for a line that contains a colon.\<close>

definition partition_colon :: "ustr \<Rightarrow> ustr \<times> ustr" where
  "partition_colon line =
     (takeWhile (\<lambda>c. c \<noteq> colon) line, drop 1 (dropWhile (\<lambda>c. c \<noteq> colon) line))"

definition is_digit :: "nat \<Rightarrow> bool" where
  "is_digit c = (48 \<le> c \<and> c \<le> 57)"

text \<open>
  \<^verbatim>\<open>int(s)\<close> on a string, base 10. The decimal digits are those of every
  script: the code points of general category Nd (Unicode 14.0, the table of
  Python 3.11) come in runs of ten, 0 to 9, and \<open>decimal_zeros\<close> lists the
  first code point of every run.
\<close>

definition decimal_zeros :: "nat list" where
  "decimal_zeros =
     [48, 1632, 1776, 1984, 2406, 2534, 2662, 2790, 2918, 3046, 3174, 3302, 3430, 3558,
      3664, 3792, 3872, 4160, 4240, 6112, 6160, 6470, 6608, 6784, 6800, 6992, 7088, 7232,
      7248, 42528, 43216, 43264, 43472, 43504, 43600, 44016, 65296, 66720, 68912, 69734,
      69872, 69942, 70096, 70384, 70736, 70864, 71248, 71360, 71472, 71904, 72016, 72784,
      73040, 73120, 92768, 92864, 93008, 120782, 120792, 120802, 120812, 120822, 123200,
      123632, 125264, 130032]"

definition decimal_value :: "nat \<Rightarrow> nat option" where
  "decimal_value c =
     map_option (\<lambda>z. c - z) (find (\<lambda>z. z \<le> c \<and> c < z + 10) decimal_zeros)"

text \<open>
  The white space \<^verbatim>\<open>int\<close> drops at both ends: that of \<^verbatim>\<open>str.isspace\<close>
  without the four separators 28 to 31.
\<close>

definition is_int_space :: "nat \<Rightarrow> bool" where
  "is_int_space c = (is_space c \<and> \<not> (28 \<le> c \<and> c \<le> 31))"

definition int_strip :: "ustr \<Rightarrow> ustr" where
  "int_strip t = rev (dropWhile is_int_space (rev (dropWhile is_int_space t)))"

text \<open>
  \<^verbatim>\<open>sys.get_int_max_str_digits()\<close>, the default: a literal of more digits
  is refused.
\<close>

definition max_str_digits :: nat where
  "max_str_digits = 4300"

text \<open>
  The digits of a literal, single underscores allowed between two digits;
  None for anything else.
\<close>

fun int_digits :: "int \<Rightarrow> ustr \<Rightarrow> int option" where
  "int_digits acc [] = Some acc"
| "int_digits acc [c] =
     (case decimal_value c of None \<Rightarrow> None | Some v \<Rightarrow> Some (acc * 10 + int v))"
| "int_digits acc (c # d # cs) =
     (case decimal_value c of
        None \<Rightarrow> None
      | Some v \<Rightarrow>
          if d = 95 then
            (case cs of
               [] \<Rightarrow> None
             | e # _ \<Rightarrow> if decimal_value e = None then None
                        else int_digits (acc * 10 + int v) cs)
          else int_digits (acc * 10 + int v) (d # cs))"

definition int_literal :: "ustr \<Rightarrow> error + int" where
  "int_literal body =
     (case body of
        [] \<Rightarrow> Inl ValueError
      | _ \<Rightarrow>
          (case int_digits 0 body of
             None \<Rightarrow> Inl ValueError
           | Some n \<Rightarrow>
               if max_str_digits < length (filter (\<lambda>c. c \<noteq> 95) body) then Inl ValueError
               else Inr n))"

definition py_int :: "ustr \<Rightarrow> error + int" where
  "py_int s =
     (case int_strip s of
        [] \<Rightarrow> Inl ValueError
      | c # cs \<Rightarrow>
          if c = 45 then (case int_literal cs of Inl e \<Rightarrow> Inl e | Inr n \<Rightarrow> Inr (- n))
          else if c = 43 then int_literal cs
          else int_literal (c # cs))"

subsection \<open>get_page_count\<close>

text \<open>
  What \<^verbatim>\<open>subprocess.check_output([pdfinfo, ...])\<close> does: the tool is not
  there (OSError), it exits with a nonzero code (CalledProcessError), or it
  exits with 0 and its standard output is returned.
\<close>

datatype pdfinfo_run =
    PdfinfoOSError nat
  | CalledProcessError int
  | PdfinfoOutput string

text \<open>The loop over the lines, building the dictionary \<^verbatim>\<open>ans\<close>.\<close>

definition add_line :: "(ustr \<rightharpoonup> ustr) \<Rightarrow> ustr \<Rightarrow> (ustr \<rightharpoonup> ustr)" where
  "add_line ans line =
     (if colon \<notin> set line then ans
      else (let (field, val0) = partition_colon line; val = strip val0
            in if field \<noteq> [] \<and> val \<noteq> [] then ans(field \<mapsto> strip val) else ans))"

definition info_dict :: "ustr \<Rightarrow> (ustr \<rightharpoonup> ustr)" where
  "info_dict raw = foldl add_line Map.empty (splitlines raw)"

definition get_page_count :: "pdfinfo_run \<Rightarrow> error + int option" where
  "get_page_count run =
     (case run of
        PdfinfoOSError e \<Rightarrow> Inl (OSError e)
      | CalledProcessError rc \<Rightarrow> Inr None
      | PdfinfoOutput raw \<Rightarrow>
          (case decode raw of
             None \<Rightarrow> Inr None
           | Some t \<Rightarrow>
               (case info_dict t (ascii ''Pages'') of
                  None \<Rightarrow> Inr None
                | Some v \<Rightarrow> (case py_int v of Inl e \<Rightarrow> Inl e | Inr n \<Rightarrow> Inr (Some n)))))"

subsection \<open>call_pdftohtml\<close>

text \<open>
  One invocation of the tool, as the function observes it: what \<^verbatim>\<open>popen\<close>
  does, what the successive calls of \<^verbatim>\<open>p.wait()\<close> do, what the log file
  holds afterwards (already stripped), whether \<^verbatim>\<open>index.xml\<close> exists, its size
  in bytes, and what lxml makes of its content.
\<close>

text \<open>
  \<^verbatim>\<open>etree.fromstring(content, XMLParser(recover=True))\<close>: a tree, given here
  by the joined text of its \<^verbatim>\<open>text\<close> elements; or None, when the parser
  recovers nothing; or the parser raises XMLSyntaxError.
\<close>

datatype xml_parse = ParsedTree ustr | ParsedNone | ParseRaises

datatype popen_result = Spawned | PopenOSError nat

datatype wait_event = Exited int | WaitOSError nat

record pdftohtml_run =
  popen_res :: popen_result
  waits :: "wait_event list"
  log_out :: ustr
  index_exists :: bool
  index_size :: nat
  index_xml :: xml_parse

text \<open>
  The \<^verbatim>\<open>while True\<close> loop around \<^verbatim>\<open>p.wait()\<close>: an interrupted wait is
  tried again, any other OSError is raised again, an exit code ends the loop.
  A wait that is interrupted for ever never returns: that is None.
\<close>

fun wait_loop :: "wait_event list \<Rightarrow> (error + int) option" where
  "wait_loop [] = None"
| "wait_loop (Exited ret # _) = Some (Inr ret)"
| "wait_loop (WaitOSError e # rest) =
     (if e = EINTR then wait_loop rest else Some (Inl (OSError e)))"

definition could_not_find :: ustr where
  "could_not_find = ascii ''Could not find pdftohtml, check it is in your PATH''"

definition call_pdftohtml :: "pdftohtml_run \<Rightarrow> (error + ustr) option" where
  "call_pdftohtml run =
     (case popen_res run of
        PopenOSError e \<Rightarrow>
          if e = ENOENT then Some (Inl (ConversionError could_not_find))
          else Some (Inl (OSError e))
      | Spawned \<Rightarrow>
          (case wait_loop (waits run) of
             None \<Rightarrow> None
           | Some (Inl err) \<Rightarrow> Some (Inl err)
           | Some (Inr ret) \<Rightarrow>
               if ret \<noteq> 0 then Some (Inl (ConversionError (log_out run)))
               else if \<not> index_exists run \<or> index_size run < 100 then Some (Inl DRMError)
               else
                 (case index_xml run of
                    ParseRaises \<Rightarrow> Some (Inl XMLSyntaxError)
                  | ParsedNone \<Rightarrow> Some (Inl AttributeError)
                  | ParsedTree t \<Rightarrow> Some (Inr t))))"

subsection \<open>get_isbn\<close>

text \<open>
  \<^verbatim>\<open>BookScanner\<close> is imported from the plugin's \<^verbatim>\<open>scan\<close> module;
  \<^verbatim>\<open>get_isbn\<close> uses four of its operations and nothing else of it, so they
  are the fields of a record.
\<close>

record ('s, 'r) scanner_ops =
  BookScanner :: 's
  look_for_identifiers_in_text :: "'s \<Rightarrow> ustr list \<Rightarrow> 's"
  has_identifier :: "'s \<Rightarrow> bool"
  get_isbn_result :: "'s \<Rightarrow> 'r"

text \<open>
  The environment of one run: what pdfinfo does, and what pdftohtml does when
  it is called with the arguments \<^verbatim>\<open>first\<close> and \<^verbatim>\<open>last\<close>.
\<close>

record pdf_env =
  pdfinfo :: pdfinfo_run
  pdftohtml :: "int option \<Rightarrow> int option \<Rightarrow> pdftohtml_run"

text \<open>
  The result of a run: the calls of \<^verbatim>\<open>call_pdftohtml\<close> that were issued, in
  order, each with its \<^verbatim>\<open>first\<close> and \<^verbatim>\<open>last\<close>, and the outcome: None when
  the run never returns, an error raised to the caller, or the value returned.
\<close>

record 'r run_result =
  calls :: "(int option \<times> int option) list"
  outcome :: "(error + 'r) option"

definition get_isbn :: "pdf_globals \<Rightarrow> ('s, 'r) scanner_ops \<Rightarrow> pdf_env \<Rightarrow> 'r run_result" where
  "get_isbn g sc env =
     (case get_page_count (pdfinfo env) of
        Inl e \<Rightarrow> \<lparr> calls = [], outcome = Some (Inl e) \<rparr>
      | Inr None \<Rightarrow> \<lparr> calls = [], outcome = Some (Inl UnboundLocalError) \<rparr>
      | Inr (Some total_pages) \<Rightarrow>
          (let scanner = BookScanner sc in
           if total_pages \<le> FRONT_PAGES g + BACK_PAGES g then
             (case call_pdftohtml (pdftohtml env None None) of
                None \<Rightarrow> \<lparr> calls = [(None, None)], outcome = None \<rparr>
              | Some (Inl e) \<Rightarrow> \<lparr> calls = [(None, None)], outcome = Some (Inl e) \<rparr>
              | Some (Inr txt) \<Rightarrow>
                  \<lparr> calls = [(None, None)],
                    outcome = Some (Inr (get_isbn_result sc
                                (look_for_identifiers_in_text sc scanner [txt]))) \<rparr>)
           else
             (let front = (Some 1, Some (FRONT_PAGES g));
                  back = (Some (total_pages - BACK_PAGES g), Some total_pages)
              in case call_pdftohtml (pdftohtml env (fst front) (snd front)) of
                None \<Rightarrow> \<lparr> calls = [front], outcome = None \<rparr>
              | Some (Inl e) \<Rightarrow> \<lparr> calls = [front], outcome = Some (Inl e) \<rparr>
              | Some (Inr txt) \<Rightarrow>
                  (let scanner1 = look_for_identifiers_in_text sc scanner [txt] in
                   if \<not> has_identifier sc scanner1 then
                     (case call_pdftohtml (pdftohtml env (fst back) (snd back)) of
                        None \<Rightarrow> \<lparr> calls = [front, back], outcome = None \<rparr>
                      | Some (Inl e) \<Rightarrow> \<lparr> calls = [front, back], outcome = Some (Inl e) \<rparr>
                      | Some (Inr txt2) \<Rightarrow>
                          \<lparr> calls = [front, back],
                            outcome = Some (Inr (get_isbn_result sc
                                        (look_for_identifiers_in_text sc scanner1 [txt2]))) \<rparr>)
                   else \<lparr> calls = [front], outcome = Some (Inr (get_isbn_result sc scanner1)) \<rparr>))))"

subsection \<open>config.py: the stored prefixes\<close>

text \<open>\<^verbatim>\<open>DEFAULT_STORE_VALUES[KEY_VALID_ISBN13_PREFIX]\<close>.\<close>

definition DEFAULT_VALID_ISBN13_PREFIX :: "ustr list" where
  "DEFAULT_VALID_ISBN13_PREFIX = [ascii ''977'', ascii ''978'', ascii ''979'']"

text \<open>\<^verbatim>\<open>str.split(',')\<close>: the pieces between commas, empty pieces kept.\<close>

fun split_from :: "ustr \<Rightarrow> ustr \<Rightarrow> ustr list" where
  "split_from cur [] = [rev cur]"
| "split_from cur (c # cs) =
     (if c = 44 then rev cur # split_from [] cs else split_from (c # cur) cs)"

definition split_comma :: "ustr \<Rightarrow> ustr list" where
  "split_comma t = split_from [] t"

text \<open>
  \<^verbatim>\<open>save_settings\<close>, the prefix entry: the text of the line edit with its
  spaces removed, split at commas, stored as it is.
\<close>

definition save_settings_prefixes :: "ustr \<Rightarrow> ustr list" where
  "save_settings_prefixes line = split_comma (filter (\<lambda>c. c \<noteq> 32) line)"

text \<open>
  \<^verbatim>\<open>c.get(KEY_VALID_ISBN13_PREFIX, DEFAULT_STORE_VALUES[KEY_VALID_ISBN13_PREFIX])\<close>:
  the stored list, the default only when the key is absent.
\<close>

definition get_valid_isbn13_prefix :: "ustr list option \<Rightarrow> ustr list" where
  "get_valid_isbn13_prefix stored =
     (case stored of None \<Rightarrow> DEFAULT_VALID_ISBN13_PREFIX | Some ps \<Rightarrow> ps)"

subsection \<open>The identifier scanner\<close>

text \<open>
  Modelled from the spec: the module \<^verbatim>\<open>scan\<close> with the class
  \<^verbatim>\<open>BookScanner\<close> is not among the source files; everything in this
  subsection follows sections 3 and 4.1 of the specification.
  The loose pattern of step 1 is a parameter \<open>locate\<close>, the function from a
  text to the substrings that match, in the order of the text.
\<close>

datatype kind = ISBN10 | ISBN13

record isbn_identifier =
  digits :: ustr
  kind :: kind
  raw_span :: ustr

record scan_state =
  found13 :: "isbn_identifier option"
  found10 :: "isbn_identifier option"

definition new_state :: scan_state where
  "new_state = \<lparr> found13 = None, found10 = None \<rparr>"

text \<open>
  Modelled from the spec: separators are hyphen, en dash, em dash, period and
  white space (steps 1 and 6).
\<close>

definition is_separator :: "nat \<Rightarrow> bool" where
  "is_separator c = (c = 45 \<or> c = 8211 \<or> c = 8212 \<or> c = 46 \<or> is_space c)"

definition strip_separators :: "ustr \<Rightarrow> ustr" where
  "strip_separators span = filter (\<lambda>c. \<not> is_separator c) span"

definition is_X :: "nat \<Rightarrow> bool" where
  "is_X c = (c = 88 \<or> c = 120)"

definition digit_value :: "nat \<Rightarrow> nat" where
  "digit_value c = (if is_X c then 10 else c - 48)"

text \<open>
  Modelled from the spec (step 3): the ISBN-10 sum with weights 10 down to 1,
  a trailing X counting 10, is 0 modulo 11.
\<close>

definition isbn10_ok :: "ustr \<Rightarrow> bool" where
  "isbn10_ok d =
     (length d = 10 \<and> list_all is_digit (take 9 d) \<and>
      list_all (\<lambda>c. is_digit c \<or> is_X c) (drop 9 d) \<and>
      sum_list (map2 (*) [10, 9, 8, 7, 6, 5, 4, 3, 2, 1] (map digit_value d)) mod 11 = 0)"

text \<open>
  Modelled from the spec (step 3): weights 1, 3, 1, 3, ... over the first twelve
  digits; the check digit \<open>(10 - sum mod 10) mod 10\<close> equals the thirteenth.
\<close>

definition isbn13_check :: "ustr \<Rightarrow> nat" where
  "isbn13_check d =
     (10 - sum_list (map2 (*) [1, 3, 1, 3, 1, 3, 1, 3, 1, 3, 1, 3] (map digit_value (take 12 d))) mod 10) mod 10"

definition isbn13_ok :: "ustr \<Rightarrow> bool" where
  "isbn13_ok d =
     (length d = 13 \<and> list_all is_digit d \<and> isbn13_check d = digit_value (d ! 12))"

text \<open>
  Modelled from the spec (section 6 and the failure semantics of 4.1): a
  prefix configuration is a set of 3-character strings naming 3-digit
  prefixes; one that is not degrades to the default prefixes.
\<close>

definition well_formed_prefixes :: "ustr list \<Rightarrow> bool" where
  "well_formed_prefixes ps = list_all (\<lambda>p. length p = 3 \<and> list_all is_digit p) ps"

definition effective_prefixes :: "ustr list \<Rightarrow> ustr list" where
  "effective_prefixes ps = (if well_formed_prefixes ps then ps else DEFAULT_VALID_ISBN13_PREFIX)"

text \<open>
  Modelled from the spec (steps 2 to 4): a match becomes an Identifier only
  when its compact form has length 10 or 13, passes the checksum of its kind
  and, for ISBN-13, starts with a configured prefix. A lower-case check
  character is stored as X.
\<close>

definition validate :: "ustr list \<Rightarrow> ustr \<Rightarrow> isbn_identifier option" where
  "validate cfg span =
     (let d = strip_separators span in
      if length d = 10 then
        (if isbn10_ok d
         then Some \<lparr> digits = map (\<lambda>c. if is_X c then 88 else c) d, kind = ISBN10, raw_span = span \<rparr>
         else None)
      else if length d = 13 then
        (if isbn13_ok d \<and> take 3 d \<in> set (effective_prefixes cfg)
         then Some \<lparr> digits = d, kind = ISBN13, raw_span = span \<rparr>
         else None)
      else None)"

text \<open>Modelled from the spec (step 5): the first valid match of each kind wins.\<close>

definition record_identifier :: "scan_state \<Rightarrow> isbn_identifier \<Rightarrow> scan_state" where
  "record_identifier st i =
     (case kind i of
        ISBN13 \<Rightarrow> (if found13 st = None then st\<lparr> found13 := Some i \<rparr> else st)
      | ISBN10 \<Rightarrow> (if found10 st = None then st\<lparr> found10 := Some i \<rparr> else st))"

definition consider_match :: "ustr list \<Rightarrow> scan_state \<Rightarrow> ustr \<Rightarrow> scan_state" where
  "consider_match cfg st span =
     (case validate cfg span of None \<Rightarrow> st | Some i \<Rightarrow> record_identifier st i)"

definition feed :: "ustr list \<Rightarrow> (ustr \<Rightarrow> ustr list) \<Rightarrow> scan_state \<Rightarrow> ustr \<Rightarrow> scan_state" where
  "feed cfg locate st t = foldl (consider_match cfg) st (locate t)"

definition scan_has_identifier :: "scan_state \<Rightarrow> bool" where
  "scan_has_identifier st = (found13 st \<noteq> None)"

definition result :: "scan_state \<Rightarrow> isbn_identifier option" where
  "result st = (case found13 st of Some i \<Rightarrow> Some i | None \<Rightarrow> found10 st)"

text \<open>
  Modelled from the spec: the scanner as \<^verbatim>\<open>get_isbn\<close> uses it; the list
  of texts is fed one text after the other.
\<close>

definition book_scanner :: "ustr list \<Rightarrow> (ustr \<Rightarrow> ustr list) \<Rightarrow> (scan_state, isbn_identifier option) scanner_ops" where
  "book_scanner cfg locate =
     \<lparr> BookScanner = new_state,
       look_for_identifiers_in_text = foldl (feed cfg locate),
       has_identifier = scan_has_identifier,
       get_isbn_result = result \<rparr>"

text \<open>
  The valid identifiers a scan of the texts meets, in the order in which it
  meets them.
\<close>

definition identifiers_in :: "ustr list \<Rightarrow> (ustr \<Rightarrow> ustr list) \<Rightarrow> ustr list \<Rightarrow> isbn_identifier list" where
  "identifiers_in cfg locate texts = List.map_filter (validate cfg) (concat (map locate texts))"

definition first_of_kind :: "kind \<Rightarrow> isbn_identifier list \<Rightarrow> isbn_identifier option" where
  "first_of_kind k ids = find (\<lambda>i. kind i = k) ids"

text \<open>
  One pattern for examples: the maximal runs of digits, X and separators that
  hold at least one digit or X.
\<close>

definition is_run_char :: "nat \<Rightarrow> bool" where
  "is_run_char c = (is_digit c \<or> is_X c \<or> is_separator c)"

fun runs_from :: "ustr \<Rightarrow> ustr \<Rightarrow> ustr list" where
  "runs_from cur [] = (if strip_separators cur = [] then [] else [rev cur])"
| "runs_from cur (c # cs) =
     (if is_run_char c then runs_from (c # cur) cs
      else if strip_separators cur = [] then runs_from [] cs
      else rev cur # runs_from [] cs)"

definition isbn_runs :: "ustr \<Rightarrow> ustr list" where
  "isbn_runs t = runs_from [] t"

subsection \<open>The Pages fields of pdfinfo's output\<close>

text \<open>
  The values of the fields named Pages, in the order of the output: of every
  line that starts with \<^verbatim>\<open>Pages:\<close> the rest of the line, stripped, when that
  is not empty.
\<close>

definition is_pages_line :: "ustr \<Rightarrow> bool" where
  "is_pages_line line = (take 6 line = ascii ''Pages:'' \<and> strip (drop 6 line) \<noteq> [])"

definition pages_values :: "ustr \<Rightarrow> ustr list" where
  "pages_values t = map (\<lambda>line. strip (drop 6 line)) (filter is_pages_line (splitlines t))"

subsection \<open>Example documents\<close>

definition text_run :: "ustr \<Rightarrow> pdftohtml_run" where
  "text_run t = \<lparr> popen_res = Spawned, waits = [WaitOSError 4, Exited 0], log_out = [],
                  index_exists = True, index_size = 100 + length t, index_xml = ParsedTree t \<rparr>"

definition drm_run :: pdftohtml_run where
  "drm_run = \<lparr> popen_res = Spawned, waits = [Exited 0], log_out = [],
               index_exists = True, index_size = 60, index_xml = ParsedNone \<rparr>"

definition failed_run :: pdftohtml_run where
  "failed_run = \<lparr> popen_res = Spawned, waits = [Exited 1], log_out = ascii ''Syntax Error'',
                  index_exists = False, index_size = 0, index_xml = ParsedNone \<rparr>"

definition missing_tool_run :: pdftohtml_run where
  "missing_tool_run = \<lparr> popen_res = PopenOSError 2, waits = [], log_out = [],
                        index_exists = False, index_size = 0, index_xml = ParsedNone \<rparr>"

text \<open>pdftohtml exits with 0 and leaves 4000 bytes that are no XML.\<close>

definition garbage_run :: pdftohtml_run where
  "garbage_run = \<lparr> popen_res = Spawned, waits = [Exited 0], log_out = [],
                   index_exists = True, index_size = 4000, index_xml = ParsedNone \<rparr>"

definition front_isbn13 :: ustr where
  "front_isbn13 = ascii ''9780134685991''"

definition back_isbn10 :: ustr where
  "back_isbn10 = ascii ''0306406152''"

definition default_scanner :: "(scan_state, isbn_identifier option) scanner_ops" where
  "default_scanner = book_scanner DEFAULT_VALID_ISBN13_PREFIX isbn_runs"

text \<open>200 pages, an ISBN-13 on a front page.\<close>

definition env_200 :: pdf_env where
  "env_200 = \<lparr> pdfinfo = PdfinfoOutput ''Pages: 200'',
               pdftohtml = (\<lambda>f l. if f = Some 1 then text_run front_isbn13 else text_run []) \<rparr>"

text \<open>200 pages, nothing on the front pages, an ISBN-10 on a back page.\<close>

definition env_back :: pdf_env where
  "env_back = \<lparr> pdfinfo = PdfinfoOutput ''Pages: 200'',
                pdftohtml = (\<lambda>f l. if f = Some 1 then text_run (ascii ''Preface'')
                                   else text_run back_isbn10) \<rparr>"

text \<open>30 pages, an ISBN-10 somewhere.\<close>

definition env_30 :: pdf_env where
  "env_30 = \<lparr> pdfinfo = PdfinfoOutput ''Pages: 30'', pdftohtml = (\<lambda>f l. text_run back_isbn10) \<rparr>"

text \<open>30 pages, protected: pdftohtml leaves an index.xml of 60 bytes.\<close>

definition env_drm :: pdf_env where
  "env_drm = \<lparr> pdfinfo = PdfinfoOutput ''Pages: 30'', pdftohtml = (\<lambda>f l. drm_run) \<rparr>"

text \<open>pdfinfo exits with code 1.\<close>

definition env_no_count :: pdf_env where
  "env_no_count = \<lparr> pdfinfo = CalledProcessError 1, pdftohtml = (\<lambda>f l. text_run front_isbn13) \<rparr>"

text \<open>A module with smaller windows: two front pages, one back page.\<close>

definition small_windows :: pdf_globals where
  "small_windows = \<lparr> FRONT_PAGES = 2, BACK_PAGES = 1 \<rparr>"

text \<open>An output of pdfinfo that is no UTF-8: the single byte 255.\<close>

definition not_utf8 :: string where
  "not_utf8 = [char_of (255::nat)]"

text \<open>Texts with an ISBN-10 and an ISBN-13, in both orders, and one with neither.\<close>

definition ten_then_thirteen :: ustr where
  "ten_then_thirteen = ascii ''0306406152,9780134685991''"

definition thirteen_then_ten :: ustr where
  "thirteen_then_ten = ascii ''9780134685991,0306406152''"

definition no_isbn_text :: ustr where
  "no_isbn_text = ascii ''Preface''"

definition the_isbn13 :: isbn_identifier where
  "the_isbn13 = \<lparr> digits = front_isbn13, kind = ISBN13, raw_span = front_isbn13 \<rparr>"

definition the_isbn10 :: isbn_identifier where
  "the_isbn10 = \<lparr> digits = back_isbn10, kind = ISBN10, raw_span = back_isbn10 \<rparr>"

text \<open>
  A prefix entry that is no list of 3-digit prefixes, as \<^verbatim>\<open>save_settings\<close>
  stores it, and a 13-digit number with the prefix 123 and a right check digit.
\<close>

definition malformed_prefixes :: "ustr list" where
  "malformed_prefixes = save_settings_prefixes (ascii ''12, 978x'')"

definition prefix_123 :: ustr where
  "prefix_123 = ascii ''1234567890128''"

section \<open>Evaluation lemmas\<close>

lemmas char_defs = is_run_char_def is_digit_def is_X_def is_separator_def is_space_def

lemma decode_pages_200: "decode ''Pages: 200'' = Some (ascii ''Pages: 200'')"
  by (simp add: decode_def ascii_def)

lemma decode_pages_30: "decode ''Pages: 30'' = Some (ascii ''Pages: 30'')"
  by (simp add: decode_def ascii_def)

lemma info_pages_200: "info_dict (ascii ''Pages: 200'') (ascii ''Pages'') = Some (ascii ''200'')"
  by (simp add: info_dict_def splitlines_def add_line_def ascii_def is_linebreak_def
      colon_def partition_colon_def strip_def is_space_def)

lemma info_pages_30: "info_dict (ascii ''Pages: 30'') (ascii ''Pages'') = Some (ascii ''30'')"
  by (simp add: info_dict_def splitlines_def add_line_def ascii_def is_linebreak_def
      colon_def partition_colon_def strip_def is_space_def)

lemma page_count_200: "get_page_count (PdfinfoOutput ''Pages: 200'') = Inr (Some 200)"
  by (simp add: get_page_count_def decode_pages_200 info_pages_200)
     (simp add: py_int_def int_literal_def int_strip_def is_int_space_def is_space_def ascii_def
        decimal_value_def decimal_zeros_def max_str_digits_def)

lemma page_count_30: "get_page_count (PdfinfoOutput ''Pages: 30'') = Inr (Some 30)"
  by (simp add: get_page_count_def decode_pages_30 info_pages_30)
     (simp add: py_int_def int_literal_def int_strip_def is_int_space_def is_space_def ascii_def
        decimal_value_def decimal_zeros_def max_str_digits_def)

lemma text_run_returns: "call_pdftohtml (text_run t) = Some (Inr t)"
  by (simp add: call_pdftohtml_def text_run_def EINTR_def)

lemma drm_run_raises: "call_pdftohtml drm_run = Some (Inl DRMError)"
  by (simp add: call_pdftohtml_def drm_run_def)

lemma runs_front: "isbn_runs front_isbn13 = [front_isbn13]"
  by (simp add: isbn_runs_def front_isbn13_def strip_separators_def ascii_def char_defs)

lemma runs_back: "isbn_runs back_isbn10 = [back_isbn10]"
  by (simp add: isbn_runs_def back_isbn10_def strip_separators_def ascii_def char_defs)

lemma validate_front:
  "validate DEFAULT_VALID_ISBN13_PREFIX front_isbn13 =
     Some \<lparr> digits = front_isbn13, kind = ISBN13, raw_span = front_isbn13 \<rparr>"
  by (simp add: validate_def front_isbn13_def strip_separators_def ascii_def char_defs isbn13_ok_def
      isbn13_check_def digit_value_def effective_prefixes_def well_formed_prefixes_def
      DEFAULT_VALID_ISBN13_PREFIX_def Let_def)

lemma validate_back:
  "validate DEFAULT_VALID_ISBN13_PREFIX back_isbn10 =
     Some \<lparr> digits = back_isbn10, kind = ISBN10, raw_span = back_isbn10 \<rparr>"
  by (simp add: validate_def back_isbn10_def strip_separators_def ascii_def char_defs isbn10_ok_def
      digit_value_def Let_def)

lemma feed_front:
  "feed DEFAULT_VALID_ISBN13_PREFIX isbn_runs new_state front_isbn13 =
     \<lparr> found13 = Some \<lparr> digits = front_isbn13, kind = ISBN13, raw_span = front_isbn13 \<rparr>,
       found10 = None \<rparr>"
  by (simp add: feed_def runs_front consider_match_def validate_front record_identifier_def
      new_state_def)

lemma feed_back:
  "feed DEFAULT_VALID_ISBN13_PREFIX isbn_runs new_state back_isbn10 =
     \<lparr> found13 = None,
       found10 = Some \<lparr> digits = back_isbn10, kind = ISBN10, raw_span = back_isbn10 \<rparr> \<rparr>"
  by (simp add: feed_def runs_back consider_match_def validate_back record_identifier_def
      new_state_def)

lemma runs_preface: "isbn_runs (ascii ''Preface'') = []"
  by (simp add: isbn_runs_def strip_separators_def ascii_def char_defs)

lemma feed_preface:
  "feed DEFAULT_VALID_ISBN13_PREFIX isbn_runs new_state (ascii ''Preface'') = new_state"
  by (simp add: feed_def runs_preface)

lemma front_has_identifier:
  "has_identifier default_scanner
     (look_for_identifiers_in_text default_scanner (BookScanner default_scanner) [front_isbn13])"
  by (simp add: default_scanner_def book_scanner_def feed_front scan_has_identifier_def)

section \<open>The page-range strategy\<close>

text \<open>
  C1. With a page count above 40, \<^verbatim>\<open>get_isbn\<close> first asks for the pages 1 to
  25 and scans their text. It asks for the pages \<open>total_pages - 15\<close> to
  \<open>total_pages\<close> next exactly when the front text was returned and the scanner
  has no identifier after scanning it. When the scanner has one, the front call
  is the only call and the value returned is the scanner's result after the
  front scan; when it has none and the back text is returned, the value
  returned is the scanner's result after scanning the front text and then the
  back text.
\<close>

theorem get_isbn_front_then_back:
  assumes "get_page_count (pdfinfo env) = Inr (Some total_pages)"
      and "40 < total_pages"
  shows "calls (get_isbn pdf_module sc env) =
           (Some 1, Some 25) #
           (case call_pdftohtml (pdftohtml env (Some 1) (Some 25)) of
              Some (Inr txt) \<Rightarrow>
                if has_identifier sc (look_for_identifiers_in_text sc (BookScanner sc) [txt])
                then [] else [(Some (total_pages - 15), Some total_pages)]
            | _ \<Rightarrow> []) \<and>
         (\<forall>txt. call_pdftohtml (pdftohtml env (Some 1) (Some 25)) = Some (Inr txt) \<and>
                has_identifier sc (look_for_identifiers_in_text sc (BookScanner sc) [txt]) \<longrightarrow>
            outcome (get_isbn pdf_module sc env) =
              Some (Inr (get_isbn_result sc
                     (look_for_identifiers_in_text sc (BookScanner sc) [txt])))) \<and>
         (\<forall>txt txt2.
            call_pdftohtml (pdftohtml env (Some 1) (Some 25)) = Some (Inr txt) \<and>
            \<not> has_identifier sc (look_for_identifiers_in_text sc (BookScanner sc) [txt]) \<and>
            call_pdftohtml (pdftohtml env (Some (total_pages - 15)) (Some total_pages)) =
              Some (Inr txt2) \<longrightarrow>
            outcome (get_isbn pdf_module sc env) =
              Some (Inr (get_isbn_result sc
                     (look_for_identifiers_in_text sc
                        (look_for_identifiers_in_text sc (BookScanner sc) [txt]) [txt2]))))"
  using assms
  by (simp add: get_isbn_def pdf_module_def Let_def split: option.splits sum.splits)

theorem get_isbn_front_then_back_witness:
  "get_page_count (pdfinfo env_200) = Inr (Some 200) \<and> (40::int) < 200 \<and>
   call_pdftohtml (pdftohtml env_200 (Some 1) (Some 25)) = Some (Inr front_isbn13) \<and>
   has_identifier default_scanner
     (look_for_identifiers_in_text default_scanner (BookScanner default_scanner) [front_isbn13]) \<and>
   calls (get_isbn pdf_module default_scanner env_200) = [(Some 1, Some 25)] \<and>
   outcome (get_isbn pdf_module default_scanner env_200) = Some (Inr (Some the_isbn13)) \<and>
   get_page_count (pdfinfo env_back) = Inr (Some 200) \<and>
   call_pdftohtml (pdftohtml env_back (Some 1) (Some 25)) = Some (Inr (ascii ''Preface'')) \<and>
   \<not> has_identifier default_scanner
     (look_for_identifiers_in_text default_scanner (BookScanner default_scanner)
        [ascii ''Preface'']) \<and>
   call_pdftohtml (pdftohtml env_back (Some (200 - 15)) (Some 200)) = Some (Inr back_isbn10) \<and>
   calls (get_isbn pdf_module default_scanner env_back) =
     [(Some 1, Some 25), (Some 185, Some 200)] \<and>
   outcome (get_isbn pdf_module default_scanner env_back) = Some (Inr (Some the_isbn10))"
proof -
  have big: "(40::int) < 200" by simp
  have pc: "get_page_count (pdfinfo env_200) = Inr (Some 200)"
    by (simp add: env_200_def page_count_200)
  have fr: "call_pdftohtml (pdftohtml env_200 (Some 1) (Some 25)) = Some (Inr front_isbn13)"
    by (simp add: env_200_def text_run_returns)
  have res: "get_isbn_result default_scanner
      (look_for_identifiers_in_text default_scanner (BookScanner default_scanner) [front_isbn13]) =
      Some the_isbn13"
    by (simp add: default_scanner_def book_scanner_def feed_front result_def the_isbn13_def)
  have pc2: "get_page_count (pdfinfo env_back) = Inr (Some 200)"
    by (simp add: env_back_def page_count_200)
  have fr2: "call_pdftohtml (pdftohtml env_back (Some 1) (Some 25)) = Some (Inr (ascii ''Preface''))"
    by (simp add: env_back_def text_run_returns)
  have bk2: "call_pdftohtml (pdftohtml env_back (Some (200 - 15)) (Some 200)) = Some (Inr back_isbn10)"
    by (simp add: env_back_def text_run_returns)
  have s1: "look_for_identifiers_in_text default_scanner (BookScanner default_scanner)
      [ascii ''Preface''] = new_state"
    by (simp add: default_scanner_def book_scanner_def feed_preface)
  have no: "\<not> has_identifier default_scanner
     (look_for_identifiers_in_text default_scanner (BookScanner default_scanner)
        [ascii ''Preface''])"
    unfolding s1 by (simp add: default_scanner_def book_scanner_def scan_has_identifier_def new_state_def)
  have res2: "get_isbn_result default_scanner
      (look_for_identifiers_in_text default_scanner
         (look_for_identifiers_in_text default_scanner (BookScanner default_scanner)
            [ascii ''Preface'']) [back_isbn10]) = Some the_isbn10"
    unfolding s1
    by (simp add: default_scanner_def book_scanner_def feed_back result_def the_isbn10_def)
  have a: "calls (get_isbn pdf_module default_scanner env_200) = [(Some 1, Some 25)] \<and>
           outcome (get_isbn pdf_module default_scanner env_200) = Some (Inr (Some the_isbn13))"
    using get_isbn_front_then_back [OF pc big, of default_scanner] fr front_has_identifier res
    by simp
  have b: "calls (get_isbn pdf_module default_scanner env_back) =
             [(Some 1, Some 25), (Some 185, Some 200)] \<and>
           outcome (get_isbn pdf_module default_scanner env_back) = Some (Inr (Some the_isbn10))"
    using get_isbn_front_then_back [OF pc2 big, of default_scanner] fr2 bk2 no res2
    by simp
  show ?thesis
    using big pc fr front_has_identifier pc2 fr2 no bk2 a b by simp
qed

text \<open>
  C2. At a document whose page count pdfinfo cannot give, \<^verbatim>\<open>get_isbn\<close> scans
  nothing, and its \<^verbatim>\<open>return scanner.get_isbn_result()\<close> reads a name that was
  never bound: the run ends in UnboundLocalError and returns no value.
\<close>

theorem get_isbn_no_page_count:
  "get_page_count (pdfinfo env_no_count) = Inr None \<and>
   get_isbn pdf_module default_scanner env_no_count =
     \<lparr> calls = [], outcome = Some (Inl UnboundLocalError) \<rparr>"
  by (simp add: get_isbn_def env_no_count_def get_page_count_def)

text \<open>
  C3. With a page count of at most 40, \<^verbatim>\<open>get_isbn\<close> issues exactly one call of
  \<^verbatim>\<open>call_pdftohtml\<close>, with neither a first nor a last page, and the value it
  returns is the scanner's result after scanning the text of that call.
\<close>

theorem get_isbn_whole_document:
  assumes "get_page_count (pdfinfo env) = Inr (Some total_pages)"
      and "total_pages \<le> 40"
  shows "calls (get_isbn pdf_module sc env) = [(None, None)] \<and>
         (\<forall>txt. call_pdftohtml (pdftohtml env None None) = Some (Inr txt) \<longrightarrow>
            outcome (get_isbn pdf_module sc env) =
              Some (Inr (get_isbn_result sc
                     (look_for_identifiers_in_text sc (BookScanner sc) [txt]))))"
  using assms
  by (simp add: get_isbn_def pdf_module_def Let_def split: option.splits sum.splits)

theorem get_isbn_whole_document_witness:
  "get_page_count (pdfinfo env_30) = Inr (Some 30) \<and> (30::int) \<le> 40 \<and>
   call_pdftohtml (pdftohtml env_30 None None) = Some (Inr back_isbn10) \<and>
   calls (get_isbn pdf_module default_scanner env_30) = [(None, None)] \<and>
   outcome (get_isbn pdf_module default_scanner env_30) =
     Some (Inr (Some \<lparr> digits = back_isbn10, kind = ISBN10, raw_span = back_isbn10 \<rparr>))"
proof -
  have pc: "get_page_count (pdfinfo env_30) = Inr (Some 30)"
    by (simp add: env_30_def page_count_30)
  have small: "(30::int) \<le> 40" by simp
  have ex: "call_pdftohtml (pdftohtml env_30 None None) = Some (Inr back_isbn10)"
    by (simp add: env_30_def text_run_returns)
  have res: "get_isbn_result default_scanner
      (look_for_identifiers_in_text default_scanner (BookScanner default_scanner) [back_isbn10]) =
      Some \<lparr> digits = back_isbn10, kind = ISBN10, raw_span = back_isbn10 \<rparr>"
    by (simp add: default_scanner_def book_scanner_def feed_back result_def)
  show ?thesis
    using get_isbn_whole_document [OF pc small, of default_scanner] pc ex res by simp
qed

text \<open>
  C5, as the specification states it, fails: at a protected document of 30
  pages the extraction raises DRMError and \<^verbatim>\<open>get_isbn\<close> ends with that error;
  there is no result, not even none.
\<close>

theorem extraction_failure_counterexample:
  "call_pdftohtml (pdftohtml env_drm None None) = Some (Inl DRMError) \<and>
   outcome (get_isbn pdf_module default_scanner env_drm) = Some (Inl DRMError)"
  by (simp add: get_isbn_def env_drm_def page_count_30 drm_run_raises pdf_module_def)

text \<open>
  C5, amended. When a call of \<^verbatim>\<open>call_pdftohtml\<close> that \<^verbatim>\<open>get_isbn\<close> issued
  raises, \<^verbatim>\<open>get_isbn\<close> ends with that very error: the failing call is its last
  call, no range is asked for twice, and nothing is returned.
\<close>

theorem get_isbn_extraction_failure_propagates:
  assumes "get_page_count (pdfinfo env) = Inr (Some total_pages)"
      and "(f, l) \<in> set (calls (get_isbn pdf_module sc env))"
      and "call_pdftohtml (pdftohtml env f l) = Some (Inl e)"
  shows "outcome (get_isbn pdf_module sc env) = Some (Inl e) \<and>
         last (calls (get_isbn pdf_module sc env)) = (f, l) \<and>
         distinct (calls (get_isbn pdf_module sc env))"
  using assms
  by (auto simp add: get_isbn_def pdf_module_def Let_def split: option.splits sum.splits if_splits)

theorem get_isbn_extraction_failure_propagates_witness:
  "get_page_count (pdfinfo env_drm) = Inr (Some 30) \<and>
   (None, None) \<in> set (calls (get_isbn pdf_module default_scanner env_drm)) \<and>
   call_pdftohtml (pdftohtml env_drm None None) = Some (Inl DRMError) \<and>
   outcome (get_isbn pdf_module default_scanner env_drm) = Some (Inl DRMError) \<and>
   last (calls (get_isbn pdf_module default_scanner env_drm)) = (None, None) \<and>
   distinct (calls (get_isbn pdf_module default_scanner env_drm))"
proof -
  have pc: "get_page_count (pdfinfo env_drm) = Inr (Some 30)"
    by (simp add: env_drm_def page_count_30)
  have issued: "(None, None) \<in> set (calls (get_isbn pdf_module default_scanner env_drm))"
    by (simp add: get_isbn_def pc pdf_module_def split: option.splits sum.splits)
  have fails: "call_pdftohtml (pdftohtml env_drm None None) = Some (Inl DRMError)"
    by (simp add: env_drm_def drm_run_raises)
  show ?thesis
    using get_isbn_extraction_failure_propagates [OF pc issued fails] pc issued fails by simp
qed

text \<open>
  C8. The module defines \<^verbatim>\<open>FRONT_PAGES = 25\<close> and \<^verbatim>\<open>BACK_PAGES = 15\<close>, and
  \<^verbatim>\<open>get_isbn\<close> takes both window sizes from these names: whatever values the
  names hold, the threshold is their sum, the front range ends at
  \<open>FRONT_PAGES\<close> and the back range starts \<open>BACK_PAGES\<close> before the last page.
\<close>

theorem window_sizes_are_module_constants:
  "FRONT_PAGES pdf_module = 25 \<and> BACK_PAGES pdf_module = 15 \<and>
   (get_page_count (pdfinfo env) = Inr (Some t) \<longrightarrow>
      (if t \<le> FRONT_PAGES g + BACK_PAGES g
       then calls (get_isbn g sc env) = [(None, None)]
       else hd (calls (get_isbn g sc env)) = (Some 1, Some (FRONT_PAGES g)) \<and>
            set (calls (get_isbn g sc env)) \<subseteq>
              {(Some 1, Some (FRONT_PAGES g)), (Some (t - BACK_PAGES g), Some t)}))"
  by (auto simp add: get_isbn_def pdf_module_def Let_def split: option.splits sum.splits)

theorem window_sizes_are_module_constants_witness:
  "get_page_count (pdfinfo env_30) = Inr (Some 30) \<and>
   hd (calls (get_isbn small_windows default_scanner env_30)) = (Some 1, Some 2) \<and>
   set (calls (get_isbn small_windows default_scanner env_30)) \<subseteq>
     {(Some 1, Some 2), (Some 29, Some 30)} \<and>
   calls (get_isbn pdf_module default_scanner env_30) = [(None, None)]"
proof -
  have pc: "get_page_count (pdfinfo env_30) = Inr (Some 30)"
    by (simp add: env_30_def page_count_30)
  show ?thesis
    using window_sizes_are_module_constants [of env_30 30 small_windows default_scanner]
          window_sizes_are_module_constants [of env_30 30 pdf_module default_scanner] pc
    by (simp add: small_windows_def pdf_module_def)
qed

section \<open>The two tools\<close>

text \<open>
  C9. \<^verbatim>\<open>call_pdftohtml\<close> raises ConversionError when \<^verbatim>\<open>popen\<close> fails with
  ENOENT and when the process exits with a code other than 0; it raises
  DRMError when the process exits with 0 and \<^verbatim>\<open>index.xml\<close> is absent or
  shorter than 100 bytes; it returns text only when the process was started,
  exited with 0 and left an \<^verbatim>\<open>index.xml\<close> of 100 bytes or more, and the
  text is then the one lxml reads from that file.
\<close>

theorem call_pdftohtml_errors:
  "(popen_res run = PopenOSError ENOENT \<longrightarrow>
      call_pdftohtml run = Some (Inl (ConversionError could_not_find))) \<and>
   (popen_res run = Spawned \<and> wait_loop (waits run) = Some (Inr ret) \<and> ret \<noteq> 0 \<longrightarrow>
      call_pdftohtml run = Some (Inl (ConversionError (log_out run)))) \<and>
   (popen_res run = Spawned \<and> wait_loop (waits run) = Some (Inr 0) \<and>
    (\<not> index_exists run \<or> index_size run < 100) \<longrightarrow>
      call_pdftohtml run = Some (Inl DRMError)) \<and>
   (call_pdftohtml run = Some (Inr t) \<longrightarrow>
      popen_res run = Spawned \<and> wait_loop (waits run) = Some (Inr 0) \<and>
      index_exists run \<and> 100 \<le> index_size run \<and> index_xml run = ParsedTree t) \<and>
   (popen_res run = Spawned \<and> wait_loop (waits run) = Some (Inr 0) \<and>
    index_exists run \<and> 100 \<le> index_size run \<and> index_xml run = ParsedTree t \<longrightarrow>
      call_pdftohtml run = Some (Inr t))"
  by (auto simp add: call_pdftohtml_def
      split: popen_result.splits option.splits sum.splits if_splits xml_parse.splits)

theorem call_pdftohtml_errors_witness:
  "popen_res missing_tool_run = PopenOSError ENOENT \<and>
   call_pdftohtml missing_tool_run = Some (Inl (ConversionError could_not_find)) \<and>
   wait_loop (waits failed_run) = Some (Inr 1) \<and>
   call_pdftohtml failed_run = Some (Inl (ConversionError (ascii ''Syntax Error''))) \<and>
   wait_loop (waits drm_run) = Some (Inr 0) \<and> index_size drm_run < 100 \<and>
   call_pdftohtml drm_run = Some (Inl DRMError) \<and>
   wait_loop (waits (text_run front_isbn13)) = Some (Inr 0) \<and>
   index_xml (text_run front_isbn13) = ParsedTree front_isbn13 \<and>
   call_pdftohtml (text_run front_isbn13) = Some (Inr front_isbn13)"
proof -
  have a: "popen_res missing_tool_run = PopenOSError ENOENT"
    by (simp add: missing_tool_run_def ENOENT_def)
  have b: "popen_res failed_run = Spawned \<and> wait_loop (waits failed_run) = Some (Inr 1) \<and> (1::int) \<noteq> 0"
    by (simp add: failed_run_def)
  have c: "popen_res drm_run = Spawned \<and> wait_loop (waits drm_run) = Some (Inr 0) \<and>
           (\<not> index_exists drm_run \<or> index_size drm_run < 100)"
    by (simp add: drm_run_def)
  have d: "popen_res (text_run front_isbn13) = Spawned \<and>
           wait_loop (waits (text_run front_isbn13)) = Some (Inr 0) \<and>
           index_exists (text_run front_isbn13) \<and> 100 \<le> index_size (text_run front_isbn13) \<and>
           index_xml (text_run front_isbn13) = ParsedTree front_isbn13"
    by (simp add: text_run_def EINTR_def)
  have e: "log_out failed_run = ascii ''Syntax Error''" "index_size drm_run < 100"
    by (simp_all add: failed_run_def drm_run_def)
  show ?thesis
    using call_pdftohtml_errors [of missing_tool_run 1 front_isbn13]
          call_pdftohtml_errors [of failed_run 1 front_isbn13]
          call_pdftohtml_errors [of drm_run 1 front_isbn13]
          call_pdftohtml_errors [of "text_run front_isbn13" 1 front_isbn13]
          a b c d e
    by simp
qed

text \<open>
  An \<^verbatim>\<open>index.xml\<close> that is long enough and no XML: lxml recovers no tree,
  and reading the \<^verbatim>\<open>text\<close> elements of None raises AttributeError.
\<close>

lemma garbage_run_raises: "call_pdftohtml garbage_run = Some (Inl AttributeError)"
  by (simp add: call_pdftohtml_def garbage_run_def)

section \<open>The dictionary built by get_page_count\<close>

lemma dropWhile_fixed: "xs = [] \<or> \<not> P (hd xs) \<Longrightarrow> dropWhile P xs = xs"
  by (cases xs) auto

lemma strip_prefix: "\<exists>zs. dropWhile is_space t = strip t @ zs"
proof -
  have "rev (dropWhile is_space t) =
        takeWhile is_space (rev (dropWhile is_space t)) @ dropWhile is_space (rev (dropWhile is_space t))"
    by simp
  then have "dropWhile is_space t =
        rev (dropWhile is_space (rev (dropWhile is_space t))) @ rev (takeWhile is_space (rev (dropWhile is_space t)))"
    by (metis rev_append rev_rev_ident)
  then show ?thesis unfolding strip_def by blast
qed

lemma strip_head: "strip t = [] \<or> \<not> is_space (hd (strip t))"
proof (cases "strip t")
  case Nil then show ?thesis by simp
next
  case (Cons a as)
  obtain zs where "dropWhile is_space t = strip t @ zs"
    using strip_prefix by blast
  with Cons have "dropWhile is_space t = a # as @ zs" by simp
  then have "\<not> is_space a"
    using hd_dropWhile [of is_space t] by auto
  with Cons show ?thesis by simp
qed

lemma strip_idem: "strip (strip t) = strip t"
proof -
  have "dropWhile is_space (strip t) = strip t"
    using strip_head [of t] by (intro dropWhile_fixed) auto
  moreover have "dropWhile is_space (rev (strip t)) = rev (strip t)"
    by (simp add: strip_def)
  ultimately show ?thesis
    by (simp add: strip_def [of "strip t"])
qed

lemma pages_key: "ascii ''Pages'' = [80, 97, 103, 101, 115]"
  by (simp add: ascii_def)

lemma pages_colon: "ascii ''Pages:'' = [80, 97, 103, 101, 115, 58]"
  by (simp add: ascii_def)

lemma partition_pages:
  "partition_colon ([80, 97, 103, 101, 115, 58] @ r) = ([80, 97, 103, 101, 115], r)"
  by (simp add: partition_colon_def colon_def)

lemma pages_line_fwd:
  assumes "colon \<in> set line" and "fst (partition_colon line) = ascii ''Pages''"
  shows "take 6 line = ascii ''Pages:''"
proof -
  have tw: "takeWhile (\<lambda>c. c \<noteq> colon) line = [80, 97, 103, 101, 115]"
    using assms(2) by (simp add: partition_colon_def pages_key)
  have ne: "dropWhile (\<lambda>c. c \<noteq> colon) line \<noteq> []"
    using assms(1) by (simp add: dropWhile_eq_Nil_conv)
  then obtain c r where dw: "dropWhile (\<lambda>c. c \<noteq> colon) line = c # r"
    by (cases "dropWhile (\<lambda>c. c \<noteq> colon) line") auto
  have "\<not> (hd (dropWhile (\<lambda>c. c \<noteq> colon) line) \<noteq> colon)"
    using ne by (rule hd_dropWhile)
  with dw have c: "c = 58" by (simp add: colon_def)
  have "line = takeWhile (\<lambda>c. c \<noteq> colon) line @ dropWhile (\<lambda>c. c \<noteq> colon) line"
    by simp
  then have "line = [80, 97, 103, 101, 115, 58] @ r"
    unfolding tw dw c by simp
  then have "take 6 line = [80, 97, 103, 101, 115, 58]"
    by simp
  then show ?thesis by (simp only: pages_colon)
qed

lemma pages_line_split:
  assumes "take 6 line = ascii ''Pages:''"
  shows "line = [80, 97, 103, 101, 115, 58] @ drop 6 line"
proof -
  have "line = take 6 line @ drop 6 line" by simp
  then show ?thesis unfolding assms pages_colon .
qed

lemma pages_line_bwd:
  assumes "take 6 line = ascii ''Pages:''"
  shows "colon \<in> set line \<and> partition_colon line = (ascii ''Pages'', drop 6 line)"
proof -
  have l: "line = [80, 97, 103, 101, 115, 58] @ drop 6 line"
    using assms by (rule pages_line_split)
  have "colon \<in> set ([80, 97, 103, 101, 115, 58] @ drop 6 line)"
    by (simp add: colon_def)
  moreover have "partition_colon ([80, 97, 103, 101, 115, 58] @ drop 6 line) = (ascii ''Pages'', drop 6 line)"
    by (simp only: partition_pages pages_key)
  ultimately show ?thesis using l by metis
qed

lemma add_line_pages:
  "add_line ans line (ascii ''Pages'') =
     (if is_pages_line line then Some (strip (drop 6 line)) else ans (ascii ''Pages''))"
proof (cases "take 6 line = ascii ''Pages:''")
  case True
  then have "colon \<in> set line" and "partition_colon line = (ascii ''Pages'', drop 6 line)"
    using pages_line_bwd by auto
  moreover have "ascii ''Pages'' \<noteq> []" by (simp add: pages_key)
  ultimately show ?thesis
    using True by (simp add: add_line_def is_pages_line_def strip_idem)
next
  case False
  then have "colon \<notin> set line \<or> fst (partition_colon line) \<noteq> ascii ''Pages''"
    using pages_line_fwd by blast
  then show ?thesis
    using False by (auto simp add: add_line_def is_pages_line_def Let_def split: prod.splits)
qed

lemma foldl_add_line_pages:
  "foldl add_line ans ls (ascii ''Pages'') =
     (if filter is_pages_line ls = [] then ans (ascii ''Pages'')
      else Some (strip (drop 6 (last (filter is_pages_line ls)))))"
proof (induction ls rule: rev_induct)
  case Nil
  then show ?case by simp
next
  case (snoc l ls)
  then show ?case by (simp add: add_line_pages)
qed

lemma info_dict_pages:
  "info_dict t (ascii ''Pages'') =
     (if pages_values t = [] then None else Some (last (pages_values t)))"
  by (simp add: info_dict_def foldl_add_line_pages pages_values_def last_map)

lemma decode_not_utf8: "decode not_utf8 = None"
  by (simp add: decode_def not_utf8_def)

lemma decode_title: "decode ''Title: x'' = Some (ascii ''Title: x'')"
  by (simp add: decode_def ascii_def)

lemma pages_values_title: "pages_values (ascii ''Title: x'') = []"
  by (simp add: pages_values_def is_pages_line_def splitlines_def ascii_def is_linebreak_def)

lemma pages_values_200: "pages_values (ascii ''Pages: 200'') = [ascii ''200'']"
  by (simp add: pages_values_def is_pages_line_def splitlines_def ascii_def is_linebreak_def
      strip_def is_space_def)

lemma py_int_200: "py_int (ascii ''200'') = Inr 200"
  by (simp add: py_int_def int_literal_def int_strip_def is_int_space_def is_space_def ascii_def
        decimal_value_def decimal_zeros_def max_str_digits_def)

lemma py_int_errors: "py_int s = Inl e \<Longrightarrow> e = ValueError"
  by (auto simp add: py_int_def int_literal_def split: list.splits option.splits if_splits sum.splits)

lemma decode_pages_abc: "decode ''Pages: abc'' = Some (ascii ''Pages: abc'')"
  by (simp add: decode_def ascii_def)

lemma pages_values_abc: "pages_values (ascii ''Pages: abc'') = [ascii ''abc'']"
  by (simp add: pages_values_def is_pages_line_def splitlines_def ascii_def is_linebreak_def
      strip_def is_space_def)

lemma py_int_abc: "py_int (ascii ''abc'') = Inl ValueError"
  by (simp add: py_int_def int_literal_def int_strip_def is_int_space_def is_space_def ascii_def
      decimal_value_def decimal_zeros_def max_str_digits_def)

text \<open>Digits of another script, an underscore between digits, a sign.\<close>

lemma py_int_arabic_indic: "py_int [1633, 1634] = Inr 12"
  by (simp add: py_int_def int_literal_def int_strip_def is_int_space_def is_space_def
      decimal_value_def decimal_zeros_def max_str_digits_def)

lemma py_int_underscore: "py_int (ascii ''-1_0'') = Inr (- 10)"
  by (simp add: py_int_def int_literal_def int_strip_def is_int_space_def is_space_def ascii_def
      decimal_value_def decimal_zeros_def max_str_digits_def)

lemma int_literal_limit:
  "int_digits 0 body = Some n \<Longrightarrow> max_str_digits < length (filter (\<lambda>c. c \<noteq> 95) body) \<Longrightarrow>
     int_literal body = Inl ValueError"
  by (cases body) (simp_all add: int_literal_def)

text \<open>
  C10, as the specification states it, fails: the output \<^verbatim>\<open>Pages: abc\<close> has a
  Pages field with a value that is not empty, and \<^verbatim>\<open>get_page_count\<close> returns
  no integer: it raises the ValueError of \<^verbatim>\<open>int\<close>.
\<close>

theorem get_page_count_counterexample:
  "pages_values (ascii ''Pages: abc'') = [ascii ''abc''] \<and>
   get_page_count (PdfinfoOutput ''Pages: abc'') = Inl ValueError"
  by (simp add: get_page_count_def decode_pages_abc info_dict_pages pages_values_abc py_int_abc)

text \<open>
  C10, amended. \<^verbatim>\<open>get_page_count\<close> returns None when pdfinfo exits with a
  nonzero code, when its output is no UTF-8, and when the output has no Pages
  field with a value. When it has one, the function hands the value of the
  last such field to \<^verbatim>\<open>int\<close>: it returns the integer when \<^verbatim>\<open>int\<close> reads
  one, and raises ValueError when \<^verbatim>\<open>int\<close> does.
\<close>

theorem get_page_count_results:
  "get_page_count (CalledProcessError rc) = Inr None \<and>
   (decode raw = None \<longrightarrow> get_page_count (PdfinfoOutput raw) = Inr None) \<and>
   (decode raw = Some t \<and> pages_values t = [] \<longrightarrow>
      get_page_count (PdfinfoOutput raw) = Inr None) \<and>
   (decode raw = Some t \<and> pages_values t \<noteq> [] \<and> py_int (last (pages_values t)) = Inr n \<longrightarrow>
      get_page_count (PdfinfoOutput raw) = Inr (Some n)) \<and>
   (decode raw = Some t \<and> pages_values t \<noteq> [] \<and> py_int (last (pages_values t)) = Inl e \<longrightarrow>
      e = ValueError \<and> get_page_count (PdfinfoOutput raw) = Inl ValueError)"
  using py_int_errors [of "last (pages_values t)" e]
  by (simp add: get_page_count_def info_dict_pages)

theorem get_page_count_results_witness:
  "get_page_count (CalledProcessError 1) = Inr None \<and>
   decode not_utf8 = None \<and> get_page_count (PdfinfoOutput not_utf8) = Inr None \<and>
   decode ''Title: x'' = Some (ascii ''Title: x'') \<and> pages_values (ascii ''Title: x'') = [] \<and>
   get_page_count (PdfinfoOutput ''Title: x'') = Inr None \<and>
   decode ''Pages: 200'' = Some (ascii ''Pages: 200'') \<and>
   pages_values (ascii ''Pages: 200'') = [ascii ''200''] \<and>
   py_int (ascii ''200'') = Inr 200 \<and>
   get_page_count (PdfinfoOutput ''Pages: 200'') = Inr (Some 200) \<and>
   decode ''Pages: abc'' = Some (ascii ''Pages: abc'') \<and>
   pages_values (ascii ''Pages: abc'') = [ascii ''abc''] \<and>
   py_int (ascii ''abc'') = Inl ValueError \<and>
   get_page_count (PdfinfoOutput ''Pages: abc'') = Inl ValueError"
  using get_page_count_results [of 1 not_utf8 "[]" 0 ValueError]
        get_page_count_results [of 1 "''Title: x''" "ascii ''Title: x''" 0 ValueError]
        get_page_count_results [of 1 "''Pages: 200''" "ascii ''Pages: 200''" 200 ValueError]
        get_page_count_results [of 1 "''Pages: abc''" "ascii ''Pages: abc''" 0 ValueError]
        decode_not_utf8 decode_title pages_values_title decode_pages_200 pages_values_200 py_int_200
        decode_pages_abc pages_values_abc py_int_abc
  by simp

section \<open>The scanner\<close>

lemma validate_kind:
  "validate cfg span = Some i \<Longrightarrow>
     (kind i = ISBN10 \<or> kind i = ISBN13) \<and> raw_span i = span"
  by (auto simp add: validate_def Let_def split: if_splits)

lemma consider_match_found13:
  "found13 (consider_match cfg st span) =
     (case found13 st of
        Some i \<Rightarrow> Some i
      | None \<Rightarrow> (case validate cfg span of
                   None \<Rightarrow> None
                 | Some i \<Rightarrow> if kind i = ISBN13 then Some i else None))"
  by (cases "validate cfg span")
     (auto simp add: consider_match_def record_identifier_def split: kind.splits option.splits)

lemma consider_match_found10:
  "found10 (consider_match cfg st span) =
     (case found10 st of
        Some i \<Rightarrow> Some i
      | None \<Rightarrow> (case validate cfg span of
                   None \<Rightarrow> None
                 | Some i \<Rightarrow> if kind i = ISBN10 then Some i else None))"
  by (cases "validate cfg span")
     (auto simp add: consider_match_def record_identifier_def split: kind.splits option.splits)

lemma scan_found13:
  "found13 (foldl (consider_match cfg) st spans) =
     (case found13 st of
        Some i \<Rightarrow> Some i
      | None \<Rightarrow> first_of_kind ISBN13 (List.map_filter (validate cfg) spans))"
proof (induction spans arbitrary: st)
  case Nil
  then show ?case
    by (simp add: first_of_kind_def split: option.splits)
next
  case (Cons span spans)
  show ?case
    by (simp add: Cons.IH consider_match_found13 first_of_kind_def split: option.splits)
qed

lemma scan_found10:
  "found10 (foldl (consider_match cfg) st spans) =
     (case found10 st of
        Some i \<Rightarrow> Some i
      | None \<Rightarrow> first_of_kind ISBN10 (List.map_filter (validate cfg) spans))"
proof (induction spans arbitrary: st)
  case Nil
  then show ?case
    by (simp add: first_of_kind_def split: option.splits)
next
  case (Cons span spans)
  show ?case
    by (simp add: Cons.IH consider_match_found10 first_of_kind_def split: option.splits)
qed

lemma feed_texts:
  "foldl (feed cfg locate) st texts = foldl (consider_match cfg) st (concat (map locate texts))"
  by (induction texts arbitrary: st) (simp_all add: feed_def)

lemma first_of_kind_Some:
  "first_of_kind k ids = Some i \<Longrightarrow> kind i = k \<and> i \<in> set ids"
  by (auto simp add: first_of_kind_def find_Some_iff)

lemma first_of_kind_None:
  "first_of_kind k ids = None \<longleftrightarrow> (\<forall>i \<in> set ids. kind i \<noteq> k)"
  by (auto simp add: first_of_kind_def find_None_iff)

text \<open>
  C4. In every scan state \<open>result\<close> is the ISBN-13 slot when it is filled and
  the ISBN-10 slot otherwise. After a scan of any texts from a new scanner the
  slots hold the first valid ISBN-13 and the first valid ISBN-10 met, so the
  result is the first valid ISBN-13, else the first valid ISBN-10, else none:
  an ISBN-13 whenever the texts hold a valid one, wherever the ISBN-10s are,
  and none when nothing matches the pattern.
\<close>

theorem result_prefers_isbn13:
  "result st = (case found13 st of Some i \<Rightarrow> Some i | None \<Rightarrow> found10 st) \<and>
   result (foldl (feed cfg locate) new_state texts) =
     (case first_of_kind ISBN13 (identifiers_in cfg locate texts) of
        Some i \<Rightarrow> Some i
      | None \<Rightarrow> first_of_kind ISBN10 (identifiers_in cfg locate texts)) \<and>
   ((\<exists>i \<in> set (identifiers_in cfg locate texts). kind i = ISBN13) \<longrightarrow>
      (\<exists>j. result (foldl (feed cfg locate) new_state texts) = Some j \<and> kind j = ISBN13)) \<and>
   (concat (map locate texts) = [] \<longrightarrow>
      result (foldl (feed cfg locate) new_state texts) = None)"
proof -
  let ?ids = "identifiers_in cfg locate texts"
  have r: "result (foldl (feed cfg locate) new_state texts) =
     (case first_of_kind ISBN13 ?ids of
        Some i \<Rightarrow> Some i
      | None \<Rightarrow> first_of_kind ISBN10 ?ids)"
  proof -
    have f13: "found13 (foldl (feed cfg locate) new_state texts) = first_of_kind ISBN13 ?ids"
      by (simp add: feed_texts scan_found13 new_state_def identifiers_in_def)
    have f10: "found10 (foldl (feed cfg locate) new_state texts) = first_of_kind ISBN10 ?ids"
      by (simp add: feed_texts scan_found10 new_state_def identifiers_in_def)
    show ?thesis unfolding result_def f13 f10 ..
  qed
  have a: "(\<exists>i \<in> set ?ids. kind i = ISBN13) \<longrightarrow>
      (\<exists>j. result (foldl (feed cfg locate) new_state texts) = Some j \<and> kind j = ISBN13)"
  proof
    assume "\<exists>i \<in> set ?ids. kind i = ISBN13"
    then have "first_of_kind ISBN13 ?ids \<noteq> None"
      by (simp add: first_of_kind_None)
    then obtain j where j: "first_of_kind ISBN13 ?ids = Some j" by blast
    then have "kind j = ISBN13" using first_of_kind_Some by blast
    with j r show "\<exists>j. result (foldl (feed cfg locate) new_state texts) = Some j \<and> kind j = ISBN13"
      by simp
  qed
  have b: "concat (map locate texts) = [] \<longrightarrow>
      result (foldl (feed cfg locate) new_state texts) = None"
  proof
    assume "concat (map locate texts) = []"
    then have "identifiers_in cfg locate texts = []"
      unfolding identifiers_in_def by (simp only: List.map_filter_simps)
    with r show "result (foldl (feed cfg locate) new_state texts) = None"
      by (simp add: first_of_kind_def)
  qed
  show ?thesis using r a b by (simp add: result_def)
qed

lemma runs_ten_then_thirteen: "isbn_runs ten_then_thirteen = [back_isbn10, front_isbn13]"
  by (simp add: isbn_runs_def ten_then_thirteen_def back_isbn10_def front_isbn13_def
      strip_separators_def ascii_def char_defs)

lemma runs_thirteen_then_ten: "isbn_runs thirteen_then_ten = [front_isbn13, back_isbn10]"
  by (simp add: isbn_runs_def thirteen_then_ten_def back_isbn10_def front_isbn13_def
      strip_separators_def ascii_def char_defs)

lemma runs_no_isbn: "isbn_runs no_isbn_text = []"
  by (simp add: isbn_runs_def no_isbn_text_def strip_separators_def ascii_def char_defs)

lemma ids_ten_then_thirteen:
  "identifiers_in DEFAULT_VALID_ISBN13_PREFIX isbn_runs [ten_then_thirteen] = [the_isbn10, the_isbn13]"
  by (simp add: identifiers_in_def runs_ten_then_thirteen validate_front validate_back
      the_isbn10_def the_isbn13_def)

lemma ids_thirteen_then_ten:
  "identifiers_in DEFAULT_VALID_ISBN13_PREFIX isbn_runs [thirteen_then_ten] = [the_isbn13, the_isbn10]"
  by (simp add: identifiers_in_def runs_thirteen_then_ten validate_front validate_back
      the_isbn10_def the_isbn13_def)

theorem result_prefers_isbn13_witness:
  "the_isbn13 \<in> set (identifiers_in DEFAULT_VALID_ISBN13_PREFIX isbn_runs [ten_then_thirteen]) \<and>
   kind the_isbn13 = ISBN13 \<and>
   result (foldl (feed DEFAULT_VALID_ISBN13_PREFIX isbn_runs) new_state [ten_then_thirteen]) =
     Some the_isbn13 \<and>
   result (foldl (feed DEFAULT_VALID_ISBN13_PREFIX isbn_runs) new_state [thirteen_then_ten]) =
     Some the_isbn13 \<and>
   concat (map isbn_runs [no_isbn_text]) = [] \<and>
   result (foldl (feed DEFAULT_VALID_ISBN13_PREFIX isbn_runs) new_state [no_isbn_text]) = None"
proof -
  have k: "kind the_isbn13 = ISBN13" "kind the_isbn10 = ISBN10"
    by (simp_all add: the_isbn13_def the_isbn10_def)
  have m: "the_isbn13 \<in> set (identifiers_in DEFAULT_VALID_ISBN13_PREFIX isbn_runs [ten_then_thirteen])"
    by (simp add: ids_ten_then_thirteen)
  have n: "concat (map isbn_runs [no_isbn_text]) = []"
    by (simp add: runs_no_isbn)
  have a: "result (foldl (feed DEFAULT_VALID_ISBN13_PREFIX isbn_runs) new_state [ten_then_thirteen]) =
     Some the_isbn13"
    using result_prefers_isbn13 [of new_state DEFAULT_VALID_ISBN13_PREFIX isbn_runs "[ten_then_thirteen]"]
    by (simp add: ids_ten_then_thirteen first_of_kind_def k)
  have b: "result (foldl (feed DEFAULT_VALID_ISBN13_PREFIX isbn_runs) new_state [thirteen_then_ten]) =
     Some the_isbn13"
    using result_prefers_isbn13 [of new_state DEFAULT_VALID_ISBN13_PREFIX isbn_runs "[thirteen_then_ten]"]
    by (simp add: ids_thirteen_then_ten first_of_kind_def k)
  have c: "result (foldl (feed DEFAULT_VALID_ISBN13_PREFIX isbn_runs) new_state [no_isbn_text]) = None"
    using result_prefers_isbn13 [of new_state DEFAULT_VALID_ISBN13_PREFIX isbn_runs "[no_isbn_text]"] n
    by blast
  show ?thesis using k m n a b c by simp
qed

section \<open>The prefix configuration\<close>

lemma default_well_formed: "well_formed_prefixes DEFAULT_VALID_ISBN13_PREFIX"
  by (simp add: well_formed_prefixes_def DEFAULT_VALID_ISBN13_PREFIX_def ascii_def is_digit_def)

lemma malformed_stored: "malformed_prefixes = [ascii ''12'', ascii ''978x'']"
  by (simp add: malformed_prefixes_def save_settings_prefixes_def split_comma_def ascii_def)

lemma malformed_not_well_formed: "\<not> well_formed_prefixes malformed_prefixes"
  by (simp add: malformed_stored well_formed_prefixes_def ascii_def)

lemma effective_malformed:
  "\<not> well_formed_prefixes cfg \<Longrightarrow>
     effective_prefixes cfg = effective_prefixes DEFAULT_VALID_ISBN13_PREFIX"
  by (simp add: effective_prefixes_def default_well_formed)

lemma validate_malformed:
  assumes "\<not> well_formed_prefixes cfg"
  shows "validate cfg = validate DEFAULT_VALID_ISBN13_PREFIX"
proof (rule ext)
  fix span
  show "validate cfg span = validate DEFAULT_VALID_ISBN13_PREFIX span"
    unfolding validate_def effective_malformed [OF assms] ..
qed

text \<open>
  C6. A scanner made with a prefix configuration that is not a list of
  3-digit strings is the scanner made with the default prefixes: it validates
  every match, and so scans every text from every state, as that one does.
  Scanning returns a state; there is no error to raise.
\<close>

theorem malformed_prefixes_degrade_to_defaults:
  assumes "\<not> well_formed_prefixes cfg"
  shows "effective_prefixes cfg = DEFAULT_VALID_ISBN13_PREFIX \<and>
         validate cfg span = validate DEFAULT_VALID_ISBN13_PREFIX span \<and>
         feed cfg locate st t = feed DEFAULT_VALID_ISBN13_PREFIX locate st t \<and>
         book_scanner cfg locate = book_scanner DEFAULT_VALID_ISBN13_PREFIX locate"
proof -
  have v: "validate cfg = validate DEFAULT_VALID_ISBN13_PREFIX"
    using assms by (rule validate_malformed)
  have c: "consider_match cfg = consider_match DEFAULT_VALID_ISBN13_PREFIX"
    by (intro ext) (simp add: consider_match_def v)
  have f: "feed cfg locate = feed DEFAULT_VALID_ISBN13_PREFIX locate"
    by (intro ext) (simp add: feed_def c)
  show ?thesis
    using assms by (simp add: effective_prefixes_def v f book_scanner_def)
qed

theorem malformed_prefixes_degrade_to_defaults_witness:
  "\<not> well_formed_prefixes malformed_prefixes \<and>
   effective_prefixes malformed_prefixes = DEFAULT_VALID_ISBN13_PREFIX \<and>
   validate malformed_prefixes front_isbn13 = Some the_isbn13 \<and>
   feed malformed_prefixes isbn_runs new_state front_isbn13 =
     \<lparr> found13 = Some the_isbn13, found10 = None \<rparr>"
  using malformed_prefixes_degrade_to_defaults
          [OF malformed_not_well_formed, of front_isbn13 isbn_runs new_state front_isbn13]
        malformed_not_well_formed validate_front feed_front
  by (simp add: the_isbn13_def)

lemma default_prefix_values:
  "DEFAULT_VALID_ISBN13_PREFIX = [[57, 55, 55], [57, 55, 56], [57, 55, 57]]"
  by (simp add: DEFAULT_VALID_ISBN13_PREFIX_def ascii_def)

text \<open>
  C7. The default of the prefix entry is the three strings 977, 978 and 979,
  each of three characters, and it is what the configuration yields when no
  prefix list is stored. A match of 13 characters whose first three are not
  among the prefixes the scanner works with is no identifier, whatever its
  check digit; the prefixes the scanner works with are the configured ones
  whenever those are well formed.
\<close>

theorem default_prefixes_and_prefix_rejection:
  "set DEFAULT_VALID_ISBN13_PREFIX = {ascii ''977'', ascii ''978'', ascii ''979''} \<and>
   (\<forall>p \<in> set DEFAULT_VALID_ISBN13_PREFIX. length p = 3) \<and>
   get_valid_isbn13_prefix None = DEFAULT_VALID_ISBN13_PREFIX \<and>
   (length (strip_separators span) = 13 \<and>
    take 3 (strip_separators span) \<notin> set (effective_prefixes cfg) \<longrightarrow>
      validate cfg span = None) \<and>
   (well_formed_prefixes cfg \<longrightarrow> effective_prefixes cfg = cfg)"
  by (simp add: DEFAULT_VALID_ISBN13_PREFIX_def get_valid_isbn13_prefix_def validate_def
      effective_prefixes_def ascii_def Let_def)

theorem default_prefixes_and_prefix_rejection_witness:
  "length (strip_separators prefix_123) = 13 \<and> isbn13_ok (strip_separators prefix_123) \<and>
   take 3 (strip_separators prefix_123) \<notin> set (effective_prefixes DEFAULT_VALID_ISBN13_PREFIX) \<and>
   validate DEFAULT_VALID_ISBN13_PREFIX prefix_123 = None \<and>
   well_formed_prefixes DEFAULT_VALID_ISBN13_PREFIX \<and>
   effective_prefixes DEFAULT_VALID_ISBN13_PREFIX = DEFAULT_VALID_ISBN13_PREFIX"
proof -
  have s: "strip_separators prefix_123 = [49, 50, 51, 52, 53, 54, 55, 56, 57, 48, 49, 50, 56]"
    by (simp add: prefix_123_def strip_separators_def ascii_def char_defs)
  have l: "length (strip_separators prefix_123) = 13"
    by (simp add: s)
  have ok: "isbn13_ok (strip_separators prefix_123)"
    by (simp add: s isbn13_ok_def isbn13_check_def is_digit_def digit_value_def is_X_def)
  have e: "effective_prefixes DEFAULT_VALID_ISBN13_PREFIX = DEFAULT_VALID_ISBN13_PREFIX"
    by (simp add: effective_prefixes_def default_well_formed)
  have n: "take 3 (strip_separators prefix_123) \<notin> set (effective_prefixes DEFAULT_VALID_ISBN13_PREFIX)"
    by (simp only: e) (simp add: s default_prefix_values)
  show ?thesis
    using default_prefixes_and_prefix_rejection [of prefix_123 DEFAULT_VALID_ISBN13_PREFIX]
          l ok n default_well_formed
    by blast
qed

end
